theory Spec2Isabelle
  imports Main
begin

text \<open>
  A model of the appointment back end: the slot grid of a working day, the availability
  listing, the admission of bookings and the two status transitions. The controller
  modelled is the one with bookings of 30 or 60 minutes and the grid is the one with the
  lunch break; requests are served one after the other on a collection of documents.
\<close>

section \<open>Slot grid (utils/timeSlots)\<close>

text \<open>
  The working-hours configuration of the richer grid generator. Times are minutes since
  midnight. \<open>END_HOUR_LIMIT\<close> is 20.5 hours and the lunch start is 12.5 hours in the source;
  both products with 60 are whole numbers, written here as halves of integer products.
\<close>

definition START_HOUR :: nat where
  "START_HOUR = 6"

definition SLOT_DURATION_MINUTES :: nat where
  "SLOT_DURATION_MINUTES = 30"

definition endMinutes :: nat where
  \<comment> \<open>\<open>Math.floor(WORKING_HOURS.END_HOUR_LIMIT * 60)\<close> with \<open>END_HOUR_LIMIT = 20.5\<close>\<close>
  "endMinutes = (41 * 60) div 2"

definition LUNCH_START_MINUTES :: nat where
  \<comment> \<open>\<open>12.5 * 60\<close>\<close>
  "LUNCH_START_MINUTES = (25 * 60) div 2"

definition LUNCH_END_MINUTES :: nat where
  "LUNCH_END_MINUTES = 14 * 60"

subsection \<open>Number formatting\<close>

definition digit_char :: "nat \<Rightarrow> char" where
  "digit_char d = ''0123456789'' ! d"

text \<open>\<open>Number.prototype.toString()\<close> on a non-negative integer: its decimal digits.\<close>

fun toString :: "nat \<Rightarrow> string" where
  "toString n = (if n < 10 then [digit_char n] else toString (n div 10) @ [digit_char (n mod 10)])"

declare toString.simps [simp del]

text \<open>\<open>s.padStart(2, '0')\<close>: zeros are put in front until the length is at least 2.\<close>

definition padStart2 :: "string \<Rightarrow> string" where
  "padStart2 s = replicate (2 - length s) (CHR ''0'') @ s"

definition formatLabel :: "nat \<Rightarrow> nat \<Rightarrow> string" where
  \<comment> \<open>the template \<open>`${hours}:${minutes}`\<close> of two padded numbers\<close>
  "formatLabel h m = padStart2 (toString h) @ '':'' @ padStart2 (toString m)"

subsection \<open>generateAllTimeSlots\<close>

text \<open>
  The \<open>while\<close> loop of \<open>generateAllTimeSlots\<close>, with the array \<open>slots\<close> and the variable
  \<open>currentTimeMinutes\<close> as arguments. Inside the lunch window the loop jumps to the end of
  lunch and continues; otherwise it pushes a label and advances by one slot.
\<close>

function slotsLoop :: "string list \<Rightarrow> nat \<Rightarrow> string list" where
  "slotsLoop slots currentTimeMinutes =
     (if currentTimeMinutes < endMinutes then
        (if currentTimeMinutes \<ge> LUNCH_START_MINUTES \<and> currentTimeMinutes < LUNCH_END_MINUTES
         then slotsLoop slots LUNCH_END_MINUTES
         else slotsLoop
                (slots @ [formatLabel (currentTimeMinutes div 60) (currentTimeMinutes mod 60)])
                (currentTimeMinutes + SLOT_DURATION_MINUTES))
      else slots)"
  by pat_completeness auto
termination
  by (relation "measure (\<lambda>(slots, t). endMinutes - t)")
     (auto simp: SLOT_DURATION_MINUTES_def)

declare slotsLoop.simps [simp del]

definition generateAllTimeSlots :: "string list" where
  "generateAllTimeSlots = slotsLoop [] (START_HOUR * 60)"

section \<open>Appointments and the store (models/Appointment)\<close>

datatype status = Pending | Confirmed | Cancelled

text \<open>
  A stored document. \<open>appt_id\<close> stands for the \<open>_id\<close> that the driver generates, \<open>date\<close>
  for the calendar day (the source normalises every date to midnight UTC, so a day number
  identifies it), \<open>duration\<close> is in minutes. The time stamps of the schema are left out:
  no operation below reads them.
\<close>

record appointment =
  appt_id :: nat
  date :: nat
  timeSlot :: string
  clientName :: string
  clientEmail :: string
  duration :: int
  status :: status

text \<open>The collection, in insertion order. Documents are never deleted.\<close>

type_synonym store = "appointment list"

definition isActive :: "appointment \<Rightarrow> bool" where
  \<comment> \<open>the query fragment \<open>status: { $in: ["pending", "confirmed"] }\<close>\<close>
  "isActive a = (status a = Pending \<or> status a = Confirmed)"

section \<open>Label arithmetic (controllers/AppointmentController)\<close>

text \<open>\<open>currentTime.split(":")\<close>: the pieces between the colons; never an empty array.\<close>

fun splitColon :: "string \<Rightarrow> string list" where
  "splitColon [] = [[]]"
| "splitColon (c # cs) =
     (if c = CHR '':'' then [] # splitColon cs
      else (case splitColon cs of [] \<Rightarrow> [[c]] | w # ws \<Rightarrow> (c # w) # ws))"

definition digitValue :: "char \<Rightarrow> nat option" where
  "digitValue c =
     map_of [(CHR ''0'', 0), (CHR ''1'', 1), (CHR ''2'', 2), (CHR ''3'', 3), (CHR ''4'', 4),
             (CHR ''5'', 5), (CHR ''6'', 6), (CHR ''7'', 7), (CHR ''8'', 8), (CHR ''9'', 9)] c"

fun numberFrom :: "nat \<Rightarrow> string \<Rightarrow> nat option" where
  "numberFrom acc [] = Some acc"
| "numberFrom acc (c # cs) =
     (case digitValue c of None \<Rightarrow> None | Some d \<Rightarrow> numberFrom (10 * acc + d) cs)"

text \<open>
  \<open>Number(s)\<close> on the pieces of a label: a run of decimal digits is its value, the empty
  string is 0, and \<open>None\<close> is \<open>NaN\<close>. The model is exact on pieces made of decimal digits
  only, which covers every label of the grid. JavaScript also reads signs, surrounding
  white space, fractions, exponents and radix prefixes, where the model answers \<open>NaN\<close>:
  for \<open>'' 9''\<close> the code has 9 and the model has \<open>None\<close>.
\<close>

definition Number :: "string \<Rightarrow> nat option" where
  "Number s = numberFrom 0 s"

text \<open>
  \<open>getNextTimeSlot\<close> sets a local-time \<open>Date\<close> to \<open>hours:minutes\<close>, adds 30 minutes and
  prints hours and minutes again: minutes beyond 59 carry into the hour and hours wrap at
  midnight. A missing or non-numeric piece makes the \<open>Date\<close> invalid, and both parts print
  as \<open>NaN\<close>. The model is exact on labels \<open>HH:MM\<close> of decimal digits on a day without a
  clock change. It computes on unbounded numbers, while a \<open>Date\<close> too far from today is
  invalid: for an hour of twenty-one digits the code prints \<open>NaN:NaN\<close> and the model a time.
\<close>

definition getNextTimeSlot :: "string \<Rightarrow> string" where
  "getNextTimeSlot currentTime =
     (case map Number (splitColon currentTime) of
        Some hours # Some minutes # _ \<Rightarrow>
          (let total = hours * 60 + minutes + SLOT_DURATION_MINUTES
           in formatLabel ((total div 60) mod 24) (total mod 60))
      | _ \<Rightarrow> ''NaN:NaN'')"

definition getAffectedTimeSlots :: "string \<Rightarrow> int \<Rightarrow> string list" where
  "getAffectedTimeSlots startTime dur =
     (let slots = [startTime]
      in if dur = 60 then slots @ [getNextTimeSlot startTime] else slots)"

section \<open>Requests and responses\<close>

text \<open>
  The body of a booking request. A field is \<open>None\<close> when it is absent; the date is given as
  the day its string parses to. \<open>duration\<close> is a number of minutes and defaults to 60 when
  absent.
\<close>

record booking =
  b_date :: "nat option"
  b_timeSlot :: "string option"
  b_clientName :: "string option"
  b_clientEmail :: "string option"
  b_duration :: "int option"

definition falsy :: "string option \<Rightarrow> bool" where
  \<comment> \<open>\<open>!x\<close> for an absent or empty string\<close>
  "falsy x = (x = None \<or> x = Some [])"

text \<open>The \<open>:id\<close> parameter: a string that is no ObjectId, or an ObjectId.\<close>

datatype id_param = Malformed | ObjectId nat

text \<open>One constructor per HTTP answer: 200 with slots, 201, 409, 400, 404, 200 with a document.\<close>

datatype response =
    Slots "string list"
  | Created appointment
  | Conflict string
  | BadRequest
  | NotFound
  | Updated appointment

section \<open>Available slots\<close>

text \<open>
  The set \<open>bookedSlots\<close> that \<open>getAvailableSlots\<close> fills with \<open>forEach\<close>: the start label of
  every booked appointment, and the next label when its duration is 60.
\<close>

definition bookedSlotsOf :: "appointment list \<Rightarrow> string set" where
  "bookedSlotsOf bookedAppointments =
     fold (\<lambda>app bookedSlots.
             (let added = insert (timeSlot app) bookedSlots
              in if duration app = 60 then insert (getNextTimeSlot (timeSlot app)) added
                 else added))
          bookedAppointments {}"

text \<open>The callback of \<open>allSlots.filter((slot, index, array) => ...)\<close>, rules A, B and C.\<close>

definition slotIsFree :: "string set \<Rightarrow> string \<Rightarrow> nat \<Rightarrow> string list \<Rightarrow> bool" where
  "slotIsFree bookedSlots slot index array =
     (if slot \<in> bookedSlots then False
      else (let nextSlotIndex = index + 1
            in if nextSlotIndex \<ge> length array then False
               else (let nextSlot = array ! nextSlotIndex
                     in if nextSlot \<in> bookedSlots then False else True)))"

text \<open>\<open>Array.prototype.filter\<close> with a callback that also receives the index and the array.\<close>

fun filterFrom :: "('a \<Rightarrow> nat \<Rightarrow> 'a list \<Rightarrow> bool) \<Rightarrow> 'a list \<Rightarrow> nat \<Rightarrow> 'a list \<Rightarrow> 'a list" where
  "filterFrom f array index [] = []"
| "filterFrom f array index (x # xs) =
     (if f x index array then x # filterFrom f array (Suc index) xs
      else filterFrom f array (Suc index) xs)"

definition filterIndexed :: "('a \<Rightarrow> nat \<Rightarrow> 'a list \<Rightarrow> bool) \<Rightarrow> 'a list \<Rightarrow> 'a list" where
  "filterIndexed f array = filterFrom f array 0 array"

definition getAvailableSlots :: "nat option \<Rightarrow> store \<Rightarrow> response" where
  "getAvailableSlots dateParam db =
     (case dateParam of
        None \<Rightarrow> BadRequest
      | Some targetDate \<Rightarrow>
          (let allSlots = generateAllTimeSlots;
               bookedAppointments = filter (\<lambda>a. date a = targetDate \<and> isActive a) db;
               bookedSlots = bookedSlotsOf bookedAppointments
           in Slots (filterIndexed (slotIsFree bookedSlots) allSlots)))"

section \<open>Booking\<close>

text \<open>
  \<open>_id\<close> of a new document: the driver makes it unique; here it is one more than every id
  in the collection.
\<close>

definition newObjectId :: "store \<Rightarrow> nat" where
  "newObjectId db = fold (\<lambda>a n. max (Suc (appt_id a)) n) db 0"

text \<open>
  The schema stores \<open>clientEmail\<close> in lower case (\<open>lowercase: true\<close>). The letters A to Z
  are mapped to a to z; a string is a list of bytes here, and letters outside ASCII stay
  as they are.
\<close>

definition lowerChar :: "char \<Rightarrow> char" where
  "lowerChar c =
     (case map_of (zip ''ABCDEFGHIJKLMNOPQRSTUVWXYZ'' ''abcdefghijklmnopqrstuvwxyz'') c of
        None \<Rightarrow> c
      | Some l \<Rightarrow> l)"

definition toLowerCase :: "string \<Rightarrow> string" where
  "toLowerCase s = map lowerChar s"

text \<open>
  \<open>createAppointment\<close> returns the answer and the collection after the request. The date
  of a request is the day that its string parses to. The two \<open>catch\<close> branches (answer
  500) are not part of the model: they are reached when the store fails, and the first
  one also when the date string is present but does not parse.
\<close>

definition requestedDuration :: "booking \<Rightarrow> int" where
  \<comment> \<open>the destructuring default \<open>duration = 60\<close>\<close>
  "requestedDuration body = (case b_duration body of None \<Rightarrow> 60 | Some d \<Rightarrow> d)"

definition invalidBody :: "booking \<Rightarrow> bool" where
  \<comment> \<open>\<open>!date || !timeSlot || !clientName || !clientEmail || duration < 30\<close>\<close>
  "invalidBody body =
     (b_date body = None \<or> falsy (b_timeSlot body) \<or> falsy (b_clientName body)
      \<or> falsy (b_clientEmail body) \<or> requestedDuration body < 30)"

definition slotsToVerify :: "booking \<Rightarrow> string list" where
  "slotsToVerify body = getAffectedTimeSlots (the (b_timeSlot body)) (requestedDuration body)"

definition startsIn :: "nat \<Rightarrow> string list \<Rightarrow> appointment \<Rightarrow> bool" where
  \<comment> \<open>the filter \<open>{date, timeSlot: {$in: slots}, status: {$in: ["pending", "confirmed"]}}\<close>\<close>
  "startsIn targetDate slots a = (date a = targetDate \<and> timeSlot a \<in> set slots \<and> isActive a)"

definition newDocument :: "booking \<Rightarrow> store \<Rightarrow> appointment" where
  \<comment> \<open>\<open>new Appointment({date: targetDate, timeSlot, clientName, clientEmail, duration, status: "pending"})\<close>\<close>
  "newDocument body db =
     \<lparr>appt_id = newObjectId db, date = the (b_date body),
      timeSlot = the (b_timeSlot body),
      clientName = the (b_clientName body),
      clientEmail = toLowerCase (the (b_clientEmail body)),
      duration = requestedDuration body, status = Pending\<rparr>"

definition createAppointment :: "booking \<Rightarrow> store \<Rightarrow> response \<times> store" where
  "createAppointment body db =
     (if invalidBody body then (BadRequest, db)
      else
        (let targetDate = the (b_date body);
             occupiedAppointments = filter (startsIn targetDate (slotsToVerify body)) db
         in (case occupiedAppointments of
               first # _ \<Rightarrow> (Conflict (timeSlot first), db)
             | [] \<Rightarrow>
                 (let newAppointment = newDocument body db
                  in (Created newAppointment, db @ [newAppointment])))))"

section \<open>Status transitions\<close>

text \<open>
  \<open>Appointment.findByIdAndUpdate(id, {status}, {new: true})\<close>: the first document with that
  id gets the status; the updated document is returned, or nothing when no document has the id.
\<close>

fun findByIdAndUpdate :: "nat \<Rightarrow> status \<Rightarrow> store \<Rightarrow> (appointment \<times> store) option" where
  "findByIdAndUpdate i st [] = None"
| "findByIdAndUpdate i st (a # db) =
     (if appt_id a = i then Some (a\<lparr>status := st\<rparr>, a\<lparr>status := st\<rparr> # db)
      else (case findByIdAndUpdate i st db of
              None \<Rightarrow> None
            | Some (doc, db') \<Rightarrow> Some (doc, a # db')))"

definition setStatus :: "status \<Rightarrow> id_param \<Rightarrow> store \<Rightarrow> response \<times> store" where
  \<comment> \<open>the common body of \<open>cancelAppointment\<close> and \<open>confirmAppointment\<close>\<close>
  "setStatus st idp db =
     (case idp of
        Malformed \<Rightarrow> (BadRequest, db)
      | ObjectId i \<Rightarrow>
          (case findByIdAndUpdate i st db of
             None \<Rightarrow> (NotFound, db)
           | Some (doc, db') \<Rightarrow> (Updated doc, db')))"

definition cancelAppointment :: "id_param \<Rightarrow> store \<Rightarrow> response \<times> store" where
  "cancelAppointment = setStatus Cancelled"

definition confirmAppointment :: "id_param \<Rightarrow> store \<Rightarrow> response \<times> store" where
  "confirmAppointment = setStatus Confirmed"

section \<open>Sequences of requests\<close>

datatype request = Book booking | Cancel id_param | Confirm id_param

fun handle :: "request \<Rightarrow> store \<Rightarrow> response \<times> store" where
  "handle (Book body) db = createAppointment body db"
| "handle (Cancel idp) db = cancelAppointment idp db"
| "handle (Confirm idp) db = confirmAppointment idp db"

text \<open>The collection after a list of requests served one after the other.\<close>

fun serve :: "request list \<Rightarrow> store \<Rightarrow> store" where
  "serve [] db = db"
| "serve (r # rs) db = serve rs (snd (handle r db))"

text \<open>A complete booking request for a day, a start label and a duration, used in examples.\<close>

definition bookingFor :: "nat \<Rightarrow> string \<Rightarrow> int \<Rightarrow> booking" where
  "bookingFor d slot dur =
     \<lparr>b_date = Some d, b_timeSlot = Some slot, b_clientName = Some ''Ana'',
      b_clientEmail = Some ''ana@example.org'', b_duration = Some dur\<rparr>"

text \<open>
  The labels an appointment occupies: its start label, and the following label when its
  duration is 60.
\<close>

definition occupiedLabels :: "appointment \<Rightarrow> string set" where
  "occupiedLabels a = set (getAffectedTimeSlots (timeSlot a) (duration a))"

definition clash :: "appointment \<Rightarrow> appointment \<Rightarrow> bool" where
  \<comment> \<open>two active appointments of one date that share an occupied label\<close>
  "clash a b = (isActive a \<and> isActive b \<and> date a = date b
                \<and> occupiedLabels a \<inter> occupiedLabels b \<noteq> {})"

fun doubleBooked :: "store \<Rightarrow> bool" where
  "doubleBooked [] = False"
| "doubleBooked (a # db) = (list_ex (clash a) db \<or> doubleBooked db)"

section \<open>Booking requests in flight\<close>

text \<open>
  \<open>createAppointment\<close> waits for the store twice: for the answer to the query for occupied
  appointments, and for the save of the new document. Other requests can be served in
  between. A request in flight has arrived, or has had an empty answer to its query and
  is about to save, or has been answered.
\<close>

datatype phase = Arrived | Verified | Answered response

definition verifyStep :: "booking \<Rightarrow> store \<Rightarrow> phase" where
  \<comment> \<open>validation and the query, up to the answer 400 or 409\<close>
  "verifyStep body db =
     (if invalidBody body then Answered BadRequest
      else
        (let targetDate = the (b_date body);
             occupiedAppointments = filter (startsIn targetDate (slotsToVerify body)) db
         in (case occupiedAppointments of
               first # _ \<Rightarrow> Answered (Conflict (timeSlot first))
             | [] \<Rightarrow> Verified)))"

definition saveStep :: "booking \<Rightarrow> store \<Rightarrow> response \<times> store" where
  \<comment> \<open>the document is built and saved, and the answer is 201\<close>
  "saveStep body db =
     (let newAppointment = newDocument body db
      in (Created newAppointment, db @ [newAppointment]))"

fun advance :: "booking \<Rightarrow> phase \<Rightarrow> store \<Rightarrow> phase \<times> store" where
  "advance body Arrived db = (verifyStep body db, db)"
| "advance body Verified db = (Answered (fst (saveStep body db)), snd (saveStep body db))"
| "advance body (Answered resp) db = (Answered resp, db)"

text \<open>
  A schedule names, step by step, the request in flight that moves next. Requests that are
  not named, or named beyond their answer, stay as they are.
\<close>

fun interleave :: "nat list \<Rightarrow> (booking \<times> phase) list \<Rightarrow> store
    \<Rightarrow> (booking \<times> phase) list \<times> store" where
  "interleave [] inFlight db = (inFlight, db)"
| "interleave (i # schedule) inFlight db =
     (if i < length inFlight
      then interleave schedule
             (inFlight[i := (fst (inFlight ! i),
                             fst (advance (fst (inFlight ! i)) (snd (inFlight ! i)) db))])
             (snd (advance (fst (inFlight ! i)) (snd (inFlight ! i)) db))
      else interleave schedule inFlight db)"

section \<open>The grid as a list\<close>

lemma config_minutes:
  "endMinutes = 1230" "LUNCH_START_MINUTES = 750" "LUNCH_END_MINUTES = 840"
  "START_HOUR = 6" "SLOT_DURATION_MINUTES = 30"
  by (simp_all add: endMinutes_def LUNCH_START_MINUTES_def LUNCH_END_MINUTES_def
      START_HOUR_def SLOT_DURATION_MINUTES_def)

lemmas label_simps = formatLabel_def padStart2_def toString.simps digit_char_def

lemma generateAllTimeSlots_eq:
  "generateAllTimeSlots =
     [''06:00'', ''06:30'', ''07:00'', ''07:30'', ''08:00'', ''08:30'', ''09:00'', ''09:30'',
      ''10:00'', ''10:30'', ''11:00'', ''11:30'', ''12:00'',
      ''14:00'', ''14:30'', ''15:00'', ''15:30'', ''16:00'', ''16:30'', ''17:00'', ''17:30'',
      ''18:00'', ''18:30'', ''19:00'', ''19:30'', ''20:00'']"
  by (simp add: generateAllTimeSlots_def slotsLoop.simps config_minutes label_simps)

text \<open>
  C6. With a day from 6:00 to 20:30, slots of 30 minutes and lunch from 12:30 to 14:00,
  the grid has \<open>12:00\<close> directly followed by \<open>14:00\<close>, none of \<open>12:30\<close>, \<open>13:00\<close>,
  \<open>13:30\<close>, and \<open>20:00\<close> as its last label.
\<close>

theorem grid_skips_lunch_and_ends_at_2000:
  "generateAllTimeSlots ! 12 = ''12:00'' \<and> generateAllTimeSlots ! 13 = ''14:00''
   \<and> length generateAllTimeSlots = 26
   \<and> ''12:30'' \<notin> set generateAllTimeSlots \<and> ''13:00'' \<notin> set generateAllTimeSlots
   \<and> ''13:30'' \<notin> set generateAllTimeSlots
   \<and> last generateAllTimeSlots = ''20:00''"
  by (simp add: generateAllTimeSlots_eq)

section \<open>Facts about filtering and booked labels\<close>

lemma filterFrom_mem:
  "x \<in> set (filterFrom f array i xs) \<longleftrightarrow> (\<exists>k<length xs. xs ! k = x \<and> f x (i + k) array)"
proof (induction xs arbitrary: i)
  case Nil
  then show ?case by simp
next
  case (Cons y ys)
  have split: "(\<exists>k<Suc (length ys). (y # ys) ! k = x \<and> f x (i + k) array)
      \<longleftrightarrow> (y = x \<and> f x i array) \<or> (\<exists>k<length ys. ys ! k = x \<and> f x (Suc i + k) array)"
    (is "?L \<longleftrightarrow> ?A \<or> ?B")
  proof
    assume ?L
    then obtain k where k: "k < Suc (length ys)" "(y # ys) ! k = x" "f x (i + k) array" by blast
    show "?A \<or> ?B"
    proof (cases k)
      case 0
      with k show ?thesis by simp
    next
      case (Suc j)
      with k have "j < length ys \<and> ys ! j = x \<and> f x (Suc i + j) array" by simp
      then show ?thesis by blast
    qed
  next
    assume "?A \<or> ?B"
    then show ?L
    proof
      assume ?A
      then have "0 < Suc (length ys) \<and> (y # ys) ! 0 = x \<and> f x (i + 0) array" by simp
      then show ?L by blast
    next
      assume ?B
      then obtain j where "j < length ys" "ys ! j = x" "f x (Suc i + j) array" by blast
      then have "Suc j < Suc (length ys) \<and> (y # ys) ! Suc j = x \<and> f x (i + Suc j) array" by simp
      then show ?L by blast
    qed
  qed
  show ?case using Cons.IH [of "Suc i"] split by auto
qed

lemma fold_booked_acc:
  "fold (\<lambda>app bookedSlots.
             (let added = insert (timeSlot app) bookedSlots
              in if duration app = 60 then insert (getNextTimeSlot (timeSlot app)) added
                 else added)) apps S = S \<union> (\<Union>a\<in>set apps. occupiedLabels a)"
  by (induction apps arbitrary: S)
     (auto simp: occupiedLabels_def getAffectedTimeSlots_def Let_def)

lemma bookedSlotsOf_eq: "bookedSlotsOf apps = (\<Union>a\<in>set apps. occupiedLabels a)"
  by (simp add: bookedSlotsOf_def fold_booked_acc)

lemma grid_distinct: "distinct generateAllTimeSlots"
  by (simp add: generateAllTimeSlots_eq)

lemma slotIsFree_iff:
  "slotIsFree B x k array \<longleftrightarrow> x \<notin> B \<and> Suc k < length array \<and> array ! Suc k \<notin> B"
  by (auto simp: slotIsFree_def Let_def)

lemma available_mem:
  assumes "getAvailableSlots (Some d) db = Slots avail"
  shows "x \<in> set avail \<longleftrightarrow>
     (\<exists>k. Suc k < length generateAllTimeSlots \<and> generateAllTimeSlots ! k = x
          \<and> x \<notin> bookedSlotsOf (filter (\<lambda>a. date a = d \<and> isActive a) db)
          \<and> generateAllTimeSlots ! Suc k \<notin> bookedSlotsOf (filter (\<lambda>a. date a = d \<and> isActive a) db))"
proof -
  let ?B = "bookedSlotsOf (filter (\<lambda>a. date a = d \<and> isActive a) db)"
  let ?g = generateAllTimeSlots
  have avail: "avail = filterFrom (slotIsFree ?B) ?g 0 ?g"
    using assms by (simp add: getAvailableSlots_def Let_def filterIndexed_def)
  have "x \<in> set avail \<longleftrightarrow> (\<exists>k<length ?g. ?g ! k = x \<and> slotIsFree ?B x k ?g)"
    unfolding avail by (simp add: filterFrom_mem)
  also have "\<dots> \<longleftrightarrow> (\<exists>k. Suc k < length ?g \<and> ?g ! k = x \<and> x \<notin> ?B \<and> ?g ! Suc k \<notin> ?B)"
    unfolding slotIsFree_iff using Suc_lessD by blast
  finally show ?thesis .
qed

section \<open>Evaluation on concrete requests\<close>

lemma getNextTimeSlot_examples:
  "getNextTimeSlot ''09:00'' = ''09:30''" "getNextTimeSlot ''09:30'' = ''10:00''"
  "getNextTimeSlot ''10:00'' = ''10:30''"
  "getNextTimeSlot ''12:00'' = ''12:30''" "getNextTimeSlot ''20:00'' = ''20:30''"
  by (simp_all add: getNextTimeSlot_def Number_def digitValue_def label_simps config_minutes)

lemma toLowerCase_example: "toLowerCase ''ana@example.org'' = ''ana@example.org''"
  by (simp add: toLowerCase_def lowerChar_def)

lemmas booking_simps =
  createAppointment_def newDocument_def toLowerCase_example
  invalidBody_def requestedDuration_def slotsToVerify_def startsIn_def
  bookingFor_def falsy_def getAffectedTimeSlots_def isActive_def newObjectId_def cancelAppointment_def confirmAppointment_def setStatus_def Let_def

lemmas slots_simps =
  getAvailableSlots_def filterIndexed_def slotIsFree_def bookedSlotsOf_def isActive_def
  generateAllTimeSlots_eq Let_def

section \<open>Overlapping bookings\<close>

text \<open>
  C1. The claim is that after any sequence of bookings and cancellations no two active
  appointments of one date share an occupied label. Two bookings from the empty
  collection refute it in the code: 60 minutes at \<open>09:00\<close>, then 30 minutes at \<open>09:30\<close>.
  The second request only asks whether an active appointment starts at \<open>09:30\<close>; both
  are stored as pending and both occupy \<open>09:30\<close>.
\<close>

theorem booking_into_second_half_is_admitted:
  "serve [Book (bookingFor 0 ''09:00'' 60), Book (bookingFor 0 ''09:30'' 30)] [] =
     [\<lparr>appt_id = 0, date = 0, timeSlot = ''09:00'', clientName = ''Ana'',
       clientEmail = ''ana@example.org'', duration = 60, status = Pending\<rparr>,
      \<lparr>appt_id = 1, date = 0, timeSlot = ''09:30'', clientName = ''Ana'',
       clientEmail = ''ana@example.org'', duration = 30, status = Pending\<rparr>]
   \<and> occupiedLabels \<lparr>appt_id = 0, date = 0, timeSlot = ''09:00'', clientName = ''Ana'',
       clientEmail = ''ana@example.org'', duration = 60, status = Pending\<rparr>
       = {''09:00'', ''09:30''}
   \<and> occupiedLabels \<lparr>appt_id = 1, date = 0, timeSlot = ''09:30'', clientName = ''Ana'',
       clientEmail = ''ana@example.org'', duration = 30, status = Pending\<rparr>
       = {''09:30''}
   \<and> doubleBooked
        (serve [Book (bookingFor 0 ''09:00'' 60), Book (bookingFor 0 ''09:30'' 30)] [])"
  by (simp add: booking_simps getNextTimeSlot_examples clash_def occupiedLabels_def)

section \<open>Availability\<close>

text \<open>
  C4. The claim is that the availability computation never offers a start whose run of
  labels crosses the lunch window, so never \<open>12:00\<close> for 60 minutes. On a day without
  appointments the code offers every label but the last, \<open>12:00\<close> among them: rule C
  looks at the next array element, \<open>14:00\<close>, while a booking of 60 minutes at \<open>12:00\<close>
  needs \<open>12:30\<close>, which is no label of the grid.
\<close>

theorem noon_is_offered_across_lunch:
  "getAvailableSlots (Some 0) [] = Slots (butlast generateAllTimeSlots)
   \<and> ''12:00'' \<in> set (butlast generateAllTimeSlots)
   \<and> getAffectedTimeSlots ''12:00'' 60 = [''12:00'', ''12:30'']
   \<and> ''12:30'' \<notin> set generateAllTimeSlots"
  by (simp add: slots_simps getAffectedTimeSlots_def getNextTimeSlot_examples)

text \<open>
  C10. \<open>getAvailableSlots\<close> has no duration parameter and always answers for two slots:
  whatever the collection holds, the answer is a list of slots that leaves out the last
  label of the grid and every label whose successor in the grid array is occupied by an
  active appointment of that date.
\<close>

theorem available_slots_are_two_slot_starts:
  "\<exists>avail. getAvailableSlots (Some d) db = Slots avail
     \<and> last generateAllTimeSlots \<notin> set avail
     \<and> (\<forall>k. Suc k < length generateAllTimeSlots
            \<and> (\<exists>a\<in>set db. date a = d \<and> isActive a
                  \<and> generateAllTimeSlots ! Suc k \<in> occupiedLabels a)
          \<longrightarrow> generateAllTimeSlots ! k \<notin> set avail)"
proof -
  let ?g = generateAllTimeSlots
  let ?B = "bookedSlotsOf (filter (\<lambda>a. date a = d \<and> isActive a) db)"
  obtain avail where avail: "getAvailableSlots (Some d) db = Slots avail"
    by (simp add: getAvailableSlots_def Let_def)
  have nonempty: "?g \<noteq> []"
    by (simp add: generateAllTimeSlots_eq)
  have no_last: "last ?g \<notin> set avail"
  proof
    assume "last ?g \<in> set avail"
    then obtain k where k: "Suc k < length ?g" "?g ! k = last ?g"
      using available_mem [OF avail] by blast
    have "?g ! k = ?g ! (length ?g - 1)"
      using k nonempty by (simp add: last_conv_nth)
    then have "k = length ?g - 1"
      using grid_distinct k(1) by (simp add: nth_eq_iff_index_eq)
    with k(1) show False by simp
  qed
  have no_pred: "?g ! k \<notin> set avail"
    if k: "Suc k < length ?g"
      and occ: "\<exists>a\<in>set db. date a = d \<and> isActive a \<and> ?g ! Suc k \<in> occupiedLabels a" for k
  proof
    assume "?g ! k \<in> set avail"
    then obtain j where j: "Suc j < length ?g" "?g ! j = ?g ! k" "?g ! Suc j \<notin> ?B"
      using available_mem [OF avail] by blast
    have "j = k"
      using grid_distinct j(1,2) k by (simp add: nth_eq_iff_index_eq)
    moreover have "?g ! Suc k \<in> ?B"
      using occ by (auto simp: bookedSlotsOf_eq)
    ultimately show False using j(3) by simp
  qed
  show ?thesis
    using avail no_last no_pred by blast
qed

theorem available_slots_are_two_slot_starts_witness:
  "\<exists>avail. getAvailableSlots (Some 0)
        [\<lparr>appt_id = 0, date = 0, timeSlot = ''09:00'', clientName = ''Ana'',
          clientEmail = ''ana@example.org'', duration = 30, status = Pending\<rparr>] = Slots avail
     \<and> ''20:00'' \<notin> set avail \<and> ''08:30'' \<notin> set avail"
proof -
  let ?a = "\<lparr>appt_id = 0, date = 0, timeSlot = ''09:00'', clientName = ''Ana'',
          clientEmail = ''ana@example.org'', duration = 30, status = Pending\<rparr>"
  have pre: "Suc 5 < length generateAllTimeSlots
      \<and> (\<exists>a\<in>set [?a]. date a = 0 \<and> isActive a
            \<and> generateAllTimeSlots ! Suc 5 \<in> occupiedLabels a)"
    by (simp add: generateAllTimeSlots_eq isActive_def occupiedLabels_def
        getAffectedTimeSlots_def)
  have g: "last generateAllTimeSlots = ''20:00''" "generateAllTimeSlots ! 5 = ''08:30''"
    by (simp_all add: generateAllTimeSlots_eq)
  from available_slots_are_two_slot_starts [of 0 "[?a]"] pre g
  show ?thesis by metis
qed

section \<open>Booking requests\<close>


lemma createAppointment_conflict:
  assumes "\<not> invalidBody body"
    and "filter (startsIn (the (b_date body)) (slotsToVerify body)) db = first # rest"
  shows "createAppointment body db = (Conflict (timeSlot first), db)"
  using assms by (simp add: createAppointment_def)

lemma createAppointment_created:
  assumes "\<not> invalidBody body"
    and "filter (startsIn (the (b_date body)) (slotsToVerify body)) db = []"
  shows "createAppointment body db =
     (Created (newDocument body db), db @ [newDocument body db])"
  using assms by (simp add: createAppointment_def Let_def)

lemma newDocument_fields:
  "date (newDocument body db) = the (b_date body)"
  "timeSlot (newDocument body db) = the (b_timeSlot body)"
  "duration (newDocument body db) = requestedDuration body"
  "status (newDocument body db) = Pending"
  by (simp_all add: newDocument_def)




lemma filter_Cons_find:
  "filter P xs = y # ys \<Longrightarrow> List.find P xs = Some y"
  by (induction xs) (auto split: if_splits)

lemma filter_nonempty_obtain:
  assumes "\<exists>x\<in>set xs. P x"
  obtains y ys where "filter P xs = y # ys"
  using assms by (cases "filter P xs") (auto simp: filter_empty_conv)

text \<open>
  C5. The claim is that 60 minutes at the last label of the grid is answered with a
  validation error, since no following slot exists. The listing says so as well (rule B
  never offers the last slot as a start of 60 minutes), but \<open>createAppointment\<close> does not
  compare the request with the grid: on the empty collection such a request is stored,
  with \<open>20:00\<close> and the off-grid \<open>20:30\<close> as its labels.
\<close>

theorem last_label_hour_is_stored:
  "last generateAllTimeSlots = ''20:00''
   \<and> createAppointment (bookingFor 0 ''20:00'' 60) [] =
     (Created \<lparr>appt_id = 0, date = 0, timeSlot = ''20:00'', clientName = ''Ana'',
               clientEmail = ''ana@example.org'', duration = 60, status = Pending\<rparr>,
      [\<lparr>appt_id = 0, date = 0, timeSlot = ''20:00'', clientName = ''Ana'',
        clientEmail = ''ana@example.org'', duration = 60, status = Pending\<rparr>])
   \<and> occupiedLabels \<lparr>appt_id = 0, date = 0, timeSlot = ''20:00'', clientName = ''Ana'',
               clientEmail = ''ana@example.org'', duration = 60, status = Pending\<rparr>
       = {''20:00'', ''20:30''}
   \<and> ''20:30'' \<notin> set generateAllTimeSlots"
  by (simp add: booking_simps generateAllTimeSlots_eq occupiedLabels_def
      getNextTimeSlot_examples)

lemma start_label_is_occupied: "timeSlot a \<in> occupiedLabels a"
  by (simp add: occupiedLabels_def getAffectedTimeSlots_def Let_def)

text \<open>
  C2. The claim is that a conflict names the first conflicting label in the order of the
  required labels. The code names the start label of the first matching document in the
  order of the collection. With 30 minutes at \<open>09:30\<close> booked before 30 minutes at \<open>09:00\<close>,
  a request for 60 minutes at \<open>09:00\<close> requires \<open>09:00\<close> then \<open>09:30\<close>, both are occupied, and
  the answer names \<open>09:30\<close>.
\<close>

theorem conflict_names_first_stored_match:
  "serve [Book (bookingFor 0 ''09:30'' 30), Book (bookingFor 0 ''09:00'' 30)] [] =
     [\<lparr>appt_id = 0, date = 0, timeSlot = ''09:30'', clientName = ''Ana'',
       clientEmail = ''ana@example.org'', duration = 30, status = Pending\<rparr>,
      \<lparr>appt_id = 1, date = 0, timeSlot = ''09:00'', clientName = ''Ana'',
       clientEmail = ''ana@example.org'', duration = 30, status = Pending\<rparr>]
   \<and> slotsToVerify (bookingFor 0 ''09:00'' 60) = [''09:00'', ''09:30'']
   \<and> List.find
        (\<lambda>l. l \<in> bookedSlotsOf
           [\<lparr>appt_id = 0, date = 0, timeSlot = ''09:30'', clientName = ''Ana'',
             clientEmail = ''ana@example.org'', duration = 30, status = Pending\<rparr>,
            \<lparr>appt_id = 1, date = 0, timeSlot = ''09:00'', clientName = ''Ana'',
             clientEmail = ''ana@example.org'', duration = 30, status = Pending\<rparr>])
        [''09:00'', ''09:30''] = Some ''09:00''
   \<and> fst (createAppointment (bookingFor 0 ''09:00'' 60)
        [\<lparr>appt_id = 0, date = 0, timeSlot = ''09:30'', clientName = ''Ana'',
          clientEmail = ''ana@example.org'', duration = 30, status = Pending\<rparr>,
         \<lparr>appt_id = 1, date = 0, timeSlot = ''09:00'', clientName = ''Ana'',
          clientEmail = ''ana@example.org'', duration = 30, status = Pending\<rparr>])
      = Conflict ''09:30''"
  by (simp add: booking_simps bookedSlotsOf_def getNextTimeSlot_examples)

text \<open>
  C2, as the code has it. For a request that passes validation: when an active
  appointment of the date starts at one of the required labels, the answer is a conflict
  naming the start label of the first such appointment in the collection, and nothing is
  stored; when no active appointment of the date occupies any required label, exactly
  one pending appointment with the requested date, start and duration is appended. (What
  happens when a required label is occupied only as the second label of an appointment of
  60 minutes is the subject of C1.)
\<close>

theorem conflict_on_start_labels_else_created:
  assumes "\<not> invalidBody body" and "b_date body = Some d"
  shows "((\<exists>a\<in>set db. date a = d \<and> isActive a \<and> timeSlot a \<in> set (slotsToVerify body))
      \<longrightarrow> (\<exists>first. List.find (startsIn d (slotsToVerify body)) db = Some first
            \<and> timeSlot first \<in> set (slotsToVerify body)
            \<and> createAppointment body db = (Conflict (timeSlot first), db)))
    \<and> ((\<forall>a\<in>set db. date a = d \<and> isActive a
            \<longrightarrow> occupiedLabels a \<inter> set (slotsToVerify body) = {})
      \<longrightarrow> (\<exists>new. createAppointment body db = (Created new, db @ [new])
            \<and> date new = d \<and> timeSlot new = the (b_timeSlot body)
            \<and> duration new = requestedDuration body \<and> status new = Pending))"
proof (intro conjI impI)
  let ?P = "startsIn d (slotsToVerify body)"
  assume "\<exists>a\<in>set db. date a = d \<and> isActive a \<and> timeSlot a \<in> set (slotsToVerify body)"
  then have "\<exists>a\<in>set db. ?P a"
    by (auto simp: startsIn_def)
  then obtain first rest where f: "filter ?P db = first # rest"
    by (rule filter_nonempty_obtain)
  then have "first \<in> set (filter ?P db)" by simp
  then have mem: "timeSlot first \<in> set (slotsToVerify body)"
    by (simp add: startsIn_def)
  have "createAppointment body db = (Conflict (timeSlot first), db)"
    using assms f createAppointment_conflict [of body db first rest] by simp
  with mem filter_Cons_find [OF f]
  show "\<exists>first. List.find ?P db = Some first
            \<and> timeSlot first \<in> set (slotsToVerify body)
            \<and> createAppointment body db = (Conflict (timeSlot first), db)"
    by blast
next
  let ?P = "startsIn d (slotsToVerify body)"
  assume free: "\<forall>a\<in>set db. date a = d \<and> isActive a
            \<longrightarrow> occupiedLabels a \<inter> set (slotsToVerify body) = {}"
  have "\<not> ?P a" if "a \<in> set db" for a
    using free that start_label_is_occupied [of a] by (auto simp: startsIn_def)
  then have "filter ?P db = []"
    by (simp add: filter_empty_conv)
  then show "\<exists>new. createAppointment body db = (Created new, db @ [new])
            \<and> date new = d \<and> timeSlot new = the (b_timeSlot body)
            \<and> duration new = requestedDuration body \<and> status new = Pending"
    using assms createAppointment_created [of body db] by (simp add: newDocument_fields)
qed

theorem conflict_on_start_labels_else_created_witness:
  "createAppointment (bookingFor 0 ''09:00'' 60)
     [\<lparr>appt_id = 0, date = 0, timeSlot = ''09:30'', clientName = ''Ana'',
       clientEmail = ''ana@example.org'', duration = 30, status = Pending\<rparr>]
   = (Conflict ''09:30'',
      [\<lparr>appt_id = 0, date = 0, timeSlot = ''09:30'', clientName = ''Ana'',
        clientEmail = ''ana@example.org'', duration = 30, status = Pending\<rparr>])
   \<and> (\<exists>new. createAppointment (bookingFor 0 ''10:00'' 30)
         [\<lparr>appt_id = 0, date = 0, timeSlot = ''09:00'', clientName = ''Ana'',
           clientEmail = ''ana@example.org'', duration = 60, status = Pending\<rparr>]
       = (Created new,
          [\<lparr>appt_id = 0, date = 0, timeSlot = ''09:00'', clientName = ''Ana'',
            clientEmail = ''ana@example.org'', duration = 60, status = Pending\<rparr>, new])
       \<and> timeSlot new = ''10:00'' \<and> duration new = 30 \<and> status new = Pending)"
proof -
  let ?a = "\<lparr>appt_id = 0, date = 0, timeSlot = ''09:30'', clientName = ''Ana'',
       clientEmail = ''ana@example.org'', duration = 30, status = Pending\<rparr>"
  let ?b = "\<lparr>appt_id = 0, date = 0, timeSlot = ''09:00'', clientName = ''Ana'',
           clientEmail = ''ana@example.org'', duration = 60, status = Pending\<rparr>"
  have v1: "\<not> invalidBody (bookingFor 0 ''09:00'' 60)" "b_date (bookingFor 0 ''09:00'' 60) = Some 0"
    and v2: "\<not> invalidBody (bookingFor 0 ''10:00'' 30)" "b_date (bookingFor 0 ''10:00'' 30) = Some 0"
    by (simp_all add: invalidBody_def bookingFor_def falsy_def requestedDuration_def)
  have taken: "\<exists>a\<in>set [?a]. date a = 0 \<and> isActive a
      \<and> timeSlot a \<in> set (slotsToVerify (bookingFor 0 ''09:00'' 60))"
    by (simp add: booking_simps getNextTimeSlot_examples)
  have free: "\<forall>a\<in>set [?b]. date a = 0 \<and> isActive a
      \<longrightarrow> occupiedLabels a \<inter> set (slotsToVerify (bookingFor 0 ''10:00'' 30)) = {}"
    by (simp add: booking_simps occupiedLabels_def getNextTimeSlot_examples)
  have found: "List.find (startsIn 0 (slotsToVerify (bookingFor 0 ''09:00'' 60))) [?a] = Some ?a"
    by (simp add: booking_simps getNextTimeSlot_examples)
  from conflict_on_start_labels_else_created [OF v1, of "[?a]"] taken found
  have one: "createAppointment (bookingFor 0 ''09:00'' 60) [?a] = (Conflict ''09:30'', [?a])"
    by auto
  from conflict_on_start_labels_else_created [OF v2, of "[?b]"] free
  have two: "\<exists>new. createAppointment (bookingFor 0 ''10:00'' 30) [?b] = (Created new, [?b, new])
       \<and> timeSlot new = ''10:00'' \<and> duration new = 30 \<and> status new = Pending"
    by (auto simp: bookingFor_def requestedDuration_def)
  from one two show ?thesis by blast
qed

section \<open>Status transitions\<close>

lemma findByIdAndUpdate_first:
  assumes "\<forall>x\<in>set pre. appt_id x \<noteq> appt_id a"
  shows "findByIdAndUpdate (appt_id a) st (pre @ a # post) =
     Some (a\<lparr>status := st\<rparr>, pre @ a\<lparr>status := st\<rparr> # post)"
  using assms by (induction pre) auto

lemma setStatus_first:
  assumes "\<forall>x\<in>set pre. appt_id x \<noteq> appt_id a"
  shows "setStatus st (ObjectId (appt_id a)) (pre @ a # post) =
     (Updated (a\<lparr>status := st\<rparr>), pre @ a\<lparr>status := st\<rparr> # post)"
  by (simp add: setStatus_def findByIdAndUpdate_first [OF assms])





text \<open>
  C9. For every id that a document of the collection has, \<open>confirmAppointment\<close> answers
  with the first such document, its status set to confirmed, and changes nothing else in
  the collection. The status the document had is not examined, so a cancelled appointment
  becomes active again whatever has been booked on its labels in the meantime.
\<close>

theorem confirm_is_unconditional:
  assumes "i \<in> appt_id ` set db"
  shows "\<exists>pre a post. db = pre @ a # post \<and> appt_id a = i \<and> (\<forall>x\<in>set pre. appt_id x \<noteq> i)
     \<and> confirmAppointment (ObjectId i) db =
         (Updated (a\<lparr>status := Confirmed\<rparr>), pre @ a\<lparr>status := Confirmed\<rparr> # post)"
proof -
  from assms have "\<exists>x\<in>set db. appt_id x = i" by auto
  from split_list_first_prop [OF this]
  obtain pre a post where split: "db = pre @ a # post" "appt_id a = i"
    "\<forall>x\<in>set pre. appt_id x \<noteq> i"
    by blast
  then have "\<forall>x\<in>set pre. appt_id x \<noteq> appt_id a" by simp
  from setStatus_first [OF this, of Confirmed post]
  have "confirmAppointment (ObjectId i) db =
         (Updated (a\<lparr>status := Confirmed\<rparr>), pre @ a\<lparr>status := Confirmed\<rparr> # post)"
    using split(1,2) by (simp add: confirmAppointment_def)
  with split show ?thesis by blast
qed

theorem confirm_is_unconditional_witness:
  "serve [Book (bookingFor 0 ''09:00'' 60), Cancel (ObjectId 0), Book (bookingFor 0 ''09:00'' 60)] []
     = [\<lparr>appt_id = 0, date = 0, timeSlot = ''09:00'', clientName = ''Ana'',
         clientEmail = ''ana@example.org'', duration = 60, status = Cancelled\<rparr>,
        \<lparr>appt_id = 1, date = 0, timeSlot = ''09:00'', clientName = ''Ana'',
         clientEmail = ''ana@example.org'', duration = 60, status = Pending\<rparr>]
   \<and> 0 \<in> appt_id ` set
        [\<lparr>appt_id = 0, date = 0, timeSlot = ''09:00'', clientName = ''Ana'',
          clientEmail = ''ana@example.org'', duration = 60, status = Cancelled\<rparr>,
         \<lparr>appt_id = 1, date = 0, timeSlot = ''09:00'', clientName = ''Ana'',
          clientEmail = ''ana@example.org'', duration = 60, status = Pending\<rparr>]
   \<and> (\<exists>pre a post.
        [\<lparr>appt_id = 0, date = 0, timeSlot = ''09:00'', clientName = ''Ana'',
          clientEmail = ''ana@example.org'', duration = 60, status = Cancelled\<rparr>,
         \<lparr>appt_id = 1, date = 0, timeSlot = ''09:00'', clientName = ''Ana'',
          clientEmail = ''ana@example.org'', duration = 60, status = Pending\<rparr>]
          = pre @ a # post \<and> appt_id a = 0
        \<and> snd (confirmAppointment (ObjectId 0)
             [\<lparr>appt_id = 0, date = 0, timeSlot = ''09:00'', clientName = ''Ana'',
               clientEmail = ''ana@example.org'', duration = 60, status = Cancelled\<rparr>,
              \<lparr>appt_id = 1, date = 0, timeSlot = ''09:00'', clientName = ''Ana'',
               clientEmail = ''ana@example.org'', duration = 60, status = Pending\<rparr>])
            = pre @ a\<lparr>status := Confirmed\<rparr> # post)
   \<and> doubleBooked
        (snd (confirmAppointment (ObjectId 0)
             [\<lparr>appt_id = 0, date = 0, timeSlot = ''09:00'', clientName = ''Ana'',
               clientEmail = ''ana@example.org'', duration = 60, status = Cancelled\<rparr>,
              \<lparr>appt_id = 1, date = 0, timeSlot = ''09:00'', clientName = ''Ana'',
               clientEmail = ''ana@example.org'', duration = 60, status = Pending\<rparr>]))"
proof -
  let ?a = "\<lparr>appt_id = 0, date = 0, timeSlot = ''09:00'', clientName = ''Ana'',
          clientEmail = ''ana@example.org'', duration = 60, status = Cancelled\<rparr>"
  let ?b = "\<lparr>appt_id = 1, date = 0, timeSlot = ''09:00'', clientName = ''Ana'',
          clientEmail = ''ana@example.org'', duration = 60, status = Pending\<rparr>"
  have run: "serve [Book (bookingFor 0 ''09:00'' 60), Cancel (ObjectId 0),
                    Book (bookingFor 0 ''09:00'' 60)] [] = [?a, ?b]"
    by (simp add: booking_simps getNextTimeSlot_examples)
  have ex: "0 \<in> appt_id ` set [?a, ?b]"
    by simp
  from confirm_is_unconditional [OF ex]
  have shape: "\<exists>pre a post. [?a, ?b] = pre @ a # post \<and> appt_id a = 0
        \<and> snd (confirmAppointment (ObjectId 0) [?a, ?b]) = pre @ a\<lparr>status := Confirmed\<rparr> # post"
    by force
  have twice: "doubleBooked (snd (confirmAppointment (ObjectId 0) [?a, ?b]))"
    by (simp add: booking_simps clash_def occupiedLabels_def getNextTimeSlot_examples)
  from run ex shape twice show ?thesis by blast
qed

section \<open>Requests in flight\<close>

lemma createAppointment_as_steps:
  "createAppointment body db =
     (case verifyStep body db of
        Answered resp \<Rightarrow> (resp, db)
      | _ \<Rightarrow> saveStep body db)"
  by (simp add: createAppointment_def verifyStep_def saveStep_def Let_def split: list.split)

lemma verifyStep_not_Arrived: "verifyStep body db \<noteq> Arrived"
  by (simp add: verifyStep_def Let_def split: list.split)

lemma interleave_alone:
  "interleave [0, 0] [(body, Arrived)] db =
     ([(body, Answered (fst (createAppointment body db)))], snd (createAppointment body db))"
proof (cases "verifyStep body db")
  case Arrived
  then show ?thesis using verifyStep_not_Arrived by blast
next
  case Verified
  then show ?thesis by (simp add: createAppointment_as_steps)
next
  case (Answered resp)
  then show ?thesis by (simp add: createAppointment_as_steps)
qed

lemmas flight_simps = verifyStep_def saveStep_def

text \<open>
  C3. The claim is that of two or more attempts of one date whose required labels
  overlap exactly one succeeds. Two requests for 60 minutes at \<open>09:00\<close> that both get the
  answer to their query before either saves are both answered 201, and two pending
  appointments at \<open>09:00\<close> are stored. Served one after the other, 60 minutes at \<open>09:00\<close> and
  30 minutes at \<open>09:30\<close>, which share the label \<open>09:30\<close>, are both answered 201 as well.
\<close>

theorem overlapping_attempts_both_succeed:
  "interleave [0, 1, 0, 1]
     [(bookingFor 0 ''09:00'' 60, Arrived), (bookingFor 0 ''09:00'' 60, Arrived)] []
   = ([(bookingFor 0 ''09:00'' 60,
        Answered (Created \<lparr>appt_id = 0, date = 0, timeSlot = ''09:00'', clientName = ''Ana'',
          clientEmail = ''ana@example.org'', duration = 60, status = Pending\<rparr>)),
       (bookingFor 0 ''09:00'' 60,
        Answered (Created \<lparr>appt_id = 1, date = 0, timeSlot = ''09:00'', clientName = ''Ana'',
          clientEmail = ''ana@example.org'', duration = 60, status = Pending\<rparr>))],
      [\<lparr>appt_id = 0, date = 0, timeSlot = ''09:00'', clientName = ''Ana'',
        clientEmail = ''ana@example.org'', duration = 60, status = Pending\<rparr>,
       \<lparr>appt_id = 1, date = 0, timeSlot = ''09:00'', clientName = ''Ana'',
        clientEmail = ''ana@example.org'', duration = 60, status = Pending\<rparr>])
   \<and> doubleBooked
       [\<lparr>appt_id = 0, date = 0, timeSlot = ''09:00'', clientName = ''Ana'',
         clientEmail = ''ana@example.org'', duration = 60, status = Pending\<rparr>,
        \<lparr>appt_id = 1, date = 0, timeSlot = ''09:00'', clientName = ''Ana'',
         clientEmail = ''ana@example.org'', duration = 60, status = Pending\<rparr>]
   \<and> slotsToVerify (bookingFor 0 ''09:00'' 60) = [''09:00'', ''09:30'']
   \<and> slotsToVerify (bookingFor 0 ''09:30'' 30) = [''09:30'']
   \<and> interleave [0, 0, 1, 1]
       [(bookingFor 0 ''09:00'' 60, Arrived), (bookingFor 0 ''09:30'' 30, Arrived)] []
     = ([(bookingFor 0 ''09:00'' 60,
          Answered (Created \<lparr>appt_id = 0, date = 0, timeSlot = ''09:00'', clientName = ''Ana'',
            clientEmail = ''ana@example.org'', duration = 60, status = Pending\<rparr>)),
         (bookingFor 0 ''09:30'' 30,
          Answered (Created \<lparr>appt_id = 1, date = 0, timeSlot = ''09:30'', clientName = ''Ana'',
            clientEmail = ''ana@example.org'', duration = 30, status = Pending\<rparr>))],
        [\<lparr>appt_id = 0, date = 0, timeSlot = ''09:00'', clientName = ''Ana'',
          clientEmail = ''ana@example.org'', duration = 60, status = Pending\<rparr>,
         \<lparr>appt_id = 1, date = 0, timeSlot = ''09:30'', clientName = ''Ana'',
          clientEmail = ''ana@example.org'', duration = 30, status = Pending\<rparr>])"
  by (simp add: flight_simps booking_simps clash_def occupiedLabels_def
      getNextTimeSlot_examples)

end
